theory Spec2Isabelle
  imports Complex_Main "HOL-Library.Sublist" "HOL-Library.Multiset"
begin

section \<open>Python values\<close>

text \<open>
  The service \<^verbatim>\<open>MLBotService\<close> of \<^verbatim>\<open>ml_bot_service.py\<close> works on
  card dictionaries of type \<^verbatim>\<open>Dict[str, Any]\<close>. The values are the JSON values
  (null, booleans, integers, floats, strings, lists, objects) and sets of hashable
  scalars (the committed colours of a draft context). Floats are idealised as reals:
  rounding, overflow, infinities and NaN are outside the model. Strings are byte
  strings.
\<close>

datatype py_error = ValueError | TypeError | AttributeError | KeyError | IndexError

text \<open>
  A hashable scalar up to Python's equality, under which \<^verbatim>\<open>True == 1 == 1.0\<close>.
\<close>

datatype hkey = HNone | HNum real | HStr string

datatype pyval =
    PNone
  | PBool bool
  | PInt int
  | PFloat real
  | PStr string
  | PList "pyval list"
  | PDict "(string \<times> pyval) list"
  | PSet "hkey list"

type_synonym pydict = "(string \<times> pyval) list"

definition ebind :: "py_error + 'a \<Rightarrow> ('a \<Rightarrow> py_error + 'b) \<Rightarrow> py_error + 'b" where
  "ebind m f = (case m of Inl e \<Rightarrow> Inl e | Inr x \<Rightarrow> f x)"

text \<open>\<^verbatim>\<open>try: x = m  except (handled): x = dflt\<close>\<close>

definition try_except :: "py_error + 'a \<Rightarrow> py_error list \<Rightarrow> 'a \<Rightarrow> py_error + 'a" where
  "try_except m handled dflt =
     (case m of
        Inl e \<Rightarrow> if e \<in> set handled then Inr dflt else Inl e
      | Inr x \<Rightarrow> Inr x)"

text \<open>\<^verbatim>\<open>d.get(k, dflt)\<close> on a dictionary with string keys.\<close>

definition dict_get :: "pydict \<Rightarrow> string \<Rightarrow> pyval \<Rightarrow> pyval" where
  "dict_get d k dflt = (case map_of d k of None \<Rightarrow> dflt | Some v \<Rightarrow> v)"

text \<open>
  The builtin \<^verbatim>\<open>float(x)\<close>. Its parser of strings is the parameter \<open>sf\<close>
  (\<open>None\<close> where Python raises \<^verbatim>\<open>ValueError\<close>).
\<close>

fun py_float :: "(string \<Rightarrow> real option) \<Rightarrow> pyval \<Rightarrow> py_error + real" where
  "py_float sf (PBool b) = Inr (if b then 1 else 0)"
| "py_float sf (PInt i) = Inr (real_of_int i)"
| "py_float sf (PFloat r) = Inr r"
| "py_float sf (PStr s) = (case sf s of None \<Rightarrow> Inl ValueError | Some r \<Rightarrow> Inr r)"
| "py_float sf PNone = Inl TypeError"
| "py_float sf (PList xs) = Inl TypeError"
| "py_float sf (PDict kvs) = Inl TypeError"
| "py_float sf (PSet ks) = Inl TypeError"

text \<open>\<^verbatim>\<open>str.lower\<close> on ASCII; bytes outside \<^verbatim>\<open>A-Z\<close> are unchanged.\<close>

definition lower_char :: "char \<Rightarrow> char" where
  "lower_char c =
     (case map_of (zip ''ABCDEFGHIJKLMNOPQRSTUVWXYZ'' ''abcdefghijklmnopqrstuvwxyz'') c of
        None \<Rightarrow> c
      | Some l \<Rightarrow> l)"

definition str_lower :: "string \<Rightarrow> string" where
  "str_lower s = map lower_char s"

text \<open>\<^verbatim>\<open>x.lower()\<close>: only strings have the method.\<close>

fun py_lower :: "pyval \<Rightarrow> py_error + string" where
  "py_lower (PStr s) = Inr (str_lower s)"
| "py_lower PNone = Inl AttributeError"
| "py_lower (PBool b) = Inl AttributeError"
| "py_lower (PInt i) = Inl AttributeError"
| "py_lower (PFloat r) = Inl AttributeError"
| "py_lower (PList xs) = Inl AttributeError"
| "py_lower (PDict kvs) = Inl AttributeError"
| "py_lower (PSet ks) = Inl AttributeError"

text \<open>\<^verbatim>\<open>hash(x)\<close>, as far as dictionaries and sets use it: lists, dictionaries and
  sets are unhashable.\<close>

fun py_hash :: "pyval \<Rightarrow> py_error + hkey" where
  "py_hash PNone = Inr HNone"
| "py_hash (PBool b) = Inr (HNum (if b then 1 else 0))"
| "py_hash (PInt i) = Inr (HNum (real_of_int i))"
| "py_hash (PFloat r) = Inr (HNum r)"
| "py_hash (PStr s) = Inr (HStr s)"
| "py_hash (PList xs) = Inl TypeError"
| "py_hash (PDict kvs) = Inl TypeError"
| "py_hash (PSet ks) = Inl TypeError"

text \<open>\<^verbatim>\<open>m.get(key, dflt)\<close> on a literal dictionary \<open>m\<close> whose keys are strings,
  with any value as \<open>key\<close>.\<close>

definition str_dict_get :: "(string \<times> 'a) list \<Rightarrow> pyval \<Rightarrow> 'a \<Rightarrow> py_error + 'a" where
  "str_dict_get m key dflt =
     ebind (py_hash key) (\<lambda>h.
       case h of
         HStr s \<Rightarrow> Inr (case map_of m s of None \<Rightarrow> dflt | Some v \<Rightarrow> v)
       | _ \<Rightarrow> Inr dflt)"

section \<open>Feature extraction\<close>

definition rarity_map :: "(string \<times> int) list" where
  "rarity_map = [(''common'', 1), (''uncommon'', 2), (''rare'', 3), (''mythic'', 4)]"

text \<open>\<^verbatim>\<open>1 if kw in type_line else 0\<close>\<close>

definition type_indicator :: "string \<Rightarrow> string \<Rightarrow> real" where
  "type_indicator kw type_line = (if sublist kw type_line then 1 else 0)"

text \<open>\<^verbatim>\<open>len(color_identity) if isinstance(color_identity, list) else 0\<close>\<close>

fun num_colors :: "pyval \<Rightarrow> nat" where
  "num_colors (PList xs) = length xs"
| "num_colors PNone = 0"
| "num_colors (PBool b) = 0"
| "num_colors (PInt i) = 0"
| "num_colors (PFloat r) = 0"
| "num_colors (PStr s) = 0"
| "num_colors (PDict kvs) = 0"
| "num_colors (PSet ks) = 0"

text \<open>
  \<^verbatim>\<open>extract_features\<close>: the row of the \<open>1 \<times> 11\<close> array it returns. The conversions
  of \<^verbatim>\<open>cmc\<close>, \<^verbatim>\<open>type_line\<close> and \<^verbatim>\<open>rarity\<close> are outside any
  \<^verbatim>\<open>try\<close>; those of \<^verbatim>\<open>power\<close> and \<^verbatim>\<open>toughness\<close> are guarded.
\<close>

definition extract_features :: "(string \<Rightarrow> real option) \<Rightarrow> pydict \<Rightarrow> py_error + real list" where
  "extract_features sf crd =
     ebind (py_float sf (dict_get crd ''cmc'' (PInt 0))) (\<lambda>cmc.
     ebind (py_lower (dict_get crd ''type_line'' (PStr ''''))) (\<lambda>type_line.
     ebind (str_dict_get rarity_map (dict_get crd ''rarity'' (PStr ''common'')) 1) (\<lambda>rarity_score.
     ebind (try_except (py_float sf (dict_get crd ''power'' (PInt 0)))
              [ValueError, TypeError] 0) (\<lambda>power.
     ebind (try_except (py_float sf (dict_get crd ''toughness'' (PInt 0)))
              [ValueError, TypeError] 0) (\<lambda>toughness.
     let color_identity = dict_get crd ''color_identity'' (PList [])
     in Inr [cmc,
             type_indicator ''creature'' type_line,
             type_indicator ''instant'' type_line,
             type_indicator ''sorcery'' type_line,
             type_indicator ''enchantment'' type_line,
             type_indicator ''artifact'' type_line,
             type_indicator ''land'' type_line,
             real_of_int rarity_score,
             power,
             toughness,
             real (num_colors color_identity)])))))"

section \<open>Personality adjustment\<close>

text \<open>The numeric entries of a personality's \<^verbatim>\<open>config\<close> dictionary.\<close>

record profile =
  skill_level :: real
  randomness :: real
  rare_bias :: real
  color_commitment :: real

text \<open>
  \<^verbatim>\<open>np.random.normal(loc, scale)\<close> is \<open>loc + scale * z\<close> for a standard normal
  draw \<open>z\<close>, which the model takes as an input; a negative scale raises
  \<^verbatim>\<open>ValueError\<close>.
\<close>

definition np_random_normal :: "real \<Rightarrow> real \<Rightarrow> real \<Rightarrow> py_error + real" where
  "np_random_normal loc scale z = (if scale < 0 then Inl ValueError else Inr (loc + scale * z))"

text \<open>\<^verbatim>\<open>bool(x)\<close>\<close>

fun py_truthy :: "pyval \<Rightarrow> bool" where
  "py_truthy PNone = False"
| "py_truthy (PBool b) = b"
| "py_truthy (PInt i) = (i \<noteq> 0)"
| "py_truthy (PFloat r) = (r \<noteq> 0)"
| "py_truthy (PStr s) = (s \<noteq> [])"
| "py_truthy (PList xs) = (xs \<noteq> [])"
| "py_truthy (PDict kvs) = (kvs \<noteq> [])"
| "py_truthy (PSet ks) = (ks \<noteq> [])"

fun hash_all :: "pyval list \<Rightarrow> py_error + hkey list" where
  "hash_all [] = Inr []"
| "hash_all (x # xs) = ebind (py_hash x) (\<lambda>k. ebind (hash_all xs) (\<lambda>ks. Inr (k # ks)))"

text \<open>
  \<^verbatim>\<open>set(x)\<close>: the elements of the set, as a list. A string gives its characters, a
  dictionary its keys; a scalar is not iterable.
\<close>

fun py_set :: "pyval \<Rightarrow> py_error + hkey list" where
  "py_set (PList xs) = hash_all xs"
| "py_set (PStr s) = Inr (map (\<lambda>c. HStr [c]) s)"
| "py_set (PDict kvs) = Inr (map (\<lambda>kv. HStr (fst kv)) kvs)"
| "py_set (PSet ks) = Inr ks"
| "py_set PNone = Inl TypeError"
| "py_set (PBool b) = Inl TypeError"
| "py_set (PInt i) = Inl TypeError"
| "py_set (PFloat r) = Inl TypeError"

text \<open>\<^verbatim>\<open>len\<close> of a set given by a list of its elements.\<close>

definition set_len :: "hkey list \<Rightarrow> nat" where
  "set_len ks = length (remdups ks)"

text \<open>\<^verbatim>\<open>x.intersection(other)\<close>: only sets have the method.\<close>

fun py_intersection :: "pyval \<Rightarrow> hkey list \<Rightarrow> py_error + hkey list" where
  "py_intersection (PSet ks) other = Inr (filter (\<lambda>k. k \<in> set other) ks)"
| "py_intersection PNone other = Inl AttributeError"
| "py_intersection (PBool b) other = Inl AttributeError"
| "py_intersection (PInt i) other = Inl AttributeError"
| "py_intersection (PFloat r) other = Inl AttributeError"
| "py_intersection (PStr s) other = Inl AttributeError"
| "py_intersection (PList xs) other = Inl AttributeError"
| "py_intersection (PDict kvs) other = Inl AttributeError"

text \<open>\<^verbatim>\<open>context['picked_colors']\<close>, looked at only when
  \<^verbatim>\<open>context and 'picked_colors' in context\<close>.\<close>

definition context_picked_colors :: "pydict option \<Rightarrow> pyval option" where
  "context_picked_colors context =
     (case context of
        None \<Rightarrow> None
      | Some d \<Rightarrow> if d = [] then None else map_of d ''picked_colors'')"

text \<open>\<^verbatim>\<open>card.get('rarity') in ['rare', 'mythic']\<close>\<close>

definition is_rare_or_mythic :: "pydict \<Rightarrow> bool" where
  "is_rare_or_mythic crd =
     (let rarity = dict_get crd ''rarity'' PNone
      in rarity = PStr ''rare'' \<or> rarity = PStr ''mythic'')"

text \<open>\<^verbatim>\<open>_apply_personality\<close>; \<open>z\<close> is the standard normal draw behind the noise.\<close>

definition apply_personality ::
  "real \<Rightarrow> pydict \<Rightarrow> profile \<Rightarrow> pydict option \<Rightarrow> real \<Rightarrow> py_error + real" where
  "apply_personality base_score crd config context z =
     (let score = base_score;
          optimal_adjustment = (100 - base_score) * (1 - skill_level config) * 0.3;
          score = score + optimal_adjustment;
          score = (if is_rare_or_mythic crd then score * rare_bias config else score)
      in ebind (np_random_normal 0 (randomness config * 20) z) (\<lambda>noise.
         let score = score + noise
         in case context_picked_colors context of
              None \<Rightarrow> Inr score
            | Some picked_colors \<Rightarrow>
                ebind (py_set (dict_get crd ''color_identity'' (PList []))) (\<lambda>card_colors.
                if py_truthy picked_colors \<and> card_colors \<noteq> [] then
                  ebind (py_intersection picked_colors card_colors) (\<lambda>inter.
                  let color_match = real (set_len inter) / real (set_len card_colors);
                      commitment_bonus = color_match * color_commitment config * 10
                  in Inr (score + commitment_bonus))
                else Inr score)))"

section \<open>Fallback evaluation\<close>

definition rarity_scores :: "(string \<times> real) list" where
  "rarity_scores = [(''common'', 40), (''uncommon'', 55), (''rare'', 70), (''mythic'', 85)]"

definition personality_multipliers :: "(string \<times> real) list" where
  "personality_multipliers =
     [(''bronze'', 0.8), (''silver'', 0.9), (''gold'', 1.0), (''mythic'', 1.1)]"

definition removal_words :: "string list" where
  "removal_words = [''destroy'', ''exile'', ''damage'', ''counter'']"

text \<open>\<^verbatim>\<open>random.uniform(a, b)\<close> is \<open>a + (b - a) * r\<close> for \<open>r\<close> the value of
  \<^verbatim>\<open>random.random()\<close>, a draw from \<open>[0, 1)\<close> that the model takes as an input.\<close>

definition py_uniform :: "real \<Rightarrow> real \<Rightarrow> real \<Rightarrow> real" where
  "py_uniform a b r = a + (b - a) * r"

definition np_clip :: "real \<Rightarrow> real \<Rightarrow> real \<Rightarrow> real" where
  "np_clip x lo hi = min (max x lo) hi"

text \<open>\<^verbatim>\<open>_fallback_evaluation\<close>\<close>

definition fallback_evaluation :: "pydict \<Rightarrow> string \<Rightarrow> real \<Rightarrow> py_error + real" where
  "fallback_evaluation crd bot_personality r =
     ebind (str_dict_get rarity_scores (dict_get crd ''rarity'' (PStr ''common'')) 40) (\<lambda>score.
     ebind (py_lower (dict_get crd ''type_line'' (PStr ''''))) (\<lambda>type_line.
     let score = (if sublist ''creature'' type_line then score + 5 else score)
     in ebind (py_lower (dict_get crd ''oracle_text'' (PStr ''''))) (\<lambda>oracle_text.
     let score = (if list_ex (\<lambda>word. sublist word oracle_text) removal_words
                  then score + 10 else score);
         score = score * (case map_of personality_multipliers bot_personality of
                            None \<Rightarrow> 1.0
                          | Some m \<Rightarrow> m);
         score = score + py_uniform (- 10) 10 r
     in Inr (np_clip score 0 100))))"

section \<open>The service: artifacts, cache, prediction\<close>

text \<open>
  The dictionary that \<^verbatim>\<open>save_models\<close> of \<^verbatim>\<open>train_draft_bots.py\<close> pickles, as
  far as the service reads it. Model and scaler are opaque callables that may raise:
  \<open>base_model\<close> stands for \<^verbatim>\<open>model.predict(x)[0]\<close>, \<open>scaler\<close> for
  \<^verbatim>\<open>scaler.transform\<close>, both on the single row.

  Modelled from the spec: the field \<open>feature_order\<close> is the feature-order list of the
  spec's ScoringArtifact; the pickled dictionary has no such entry and the service reads
  none.
\<close>

record model_data =
  base_model :: "real list \<Rightarrow> py_error + real"
  scaler :: "real list \<Rightarrow> py_error + real list"
  config :: profile
  feature_order :: "string list"

text \<open>The names of the extractor's components, as \<^verbatim>\<open>save_models\<close> writes them to
  \<^verbatim>\<open>metadata.json\<close>.\<close>

definition extractor_feature_order :: "string list" where
  "extractor_feature_order =
     [''cmc'', ''is_creature'', ''is_instant'', ''is_sorcery'', ''is_enchantment'',
      ''is_artifact'', ''is_land'', ''rarity_score'', ''power_num'', ''toughness_num'',
      ''num_colors'']"

text \<open>\<^verbatim>\<open>self.loaded_models\<close>: set code, then personality.\<close>

record service =
  loaded_models :: "string \<rightharpoonup> (string \<rightharpoonup> model_data)"

text \<open>
  What the service reads from outside: \<open>str_float\<close> is \<^verbatim>\<open>float\<close> on strings,
  \<open>unpickle dir file\<close> the content of \<^verbatim>\<open>MODELS_DIR / dir / file\<close>, \<open>None\<close>
  when the file does not exist or \<^verbatim>\<open>pickle.load\<close> raises.
\<close>

record env =
  str_float :: "string \<Rightarrow> real option"
  unpickle :: "string \<Rightarrow> string \<Rightarrow> model_data option"

text \<open>\<^verbatim>\<open>load_bot_model\<close>\<close>

definition load_bot_model :: "env \<Rightarrow> service \<Rightarrow> string \<Rightarrow> string \<Rightarrow> bool \<times> service" where
  "load_bot_model e st set_code bot_personality =
     (case unpickle e (str_lower set_code) (bot_personality @ ''_bot.pkl'') of
        None \<Rightarrow> (False, st)
      | Some md \<Rightarrow>
          let per_set = (case loaded_models st set_code of None \<Rightarrow> Map.empty | Some m \<Rightarrow> m)
          in (True, st\<lparr>loaded_models :=
                (loaded_models st)(set_code \<mapsto> per_set(bot_personality \<mapsto> md))\<rparr>))"

text \<open>\<^verbatim>\<open>set_code in self.loaded_models and bot_personality in self.loaded_models[set_code]\<close>\<close>

definition model_loaded :: "service \<Rightarrow> string \<Rightarrow> string \<Rightarrow> bool" where
  "model_loaded st set_code bot_personality =
     (case loaded_models st set_code of
        None \<Rightarrow> False
      | Some m \<Rightarrow> (case m bot_personality of None \<Rightarrow> False | Some md \<Rightarrow> True))"

text \<open>\<^verbatim>\<open>self.loaded_models[set_code][bot_personality]\<close>\<close>

definition lookup_model :: "service \<Rightarrow> string \<Rightarrow> string \<Rightarrow> py_error + model_data" where
  "lookup_model st set_code bot_personality =
     (case loaded_models st set_code of
        None \<Rightarrow> Inl KeyError
      | Some m \<Rightarrow> (case m bot_personality of None \<Rightarrow> Inl KeyError | Some md \<Rightarrow> Inr md))"

text \<open>The second half of \<^verbatim>\<open>predict_pick_value\<close>, from the reading of the artifact's
  entries to the final clip.\<close>

definition score_with_artifact ::
  "env \<Rightarrow> model_data \<Rightarrow> pydict \<Rightarrow> pydict option \<Rightarrow> real \<Rightarrow> py_error + real" where
  "score_with_artifact e md crd context z =
     ebind (extract_features (str_float e) crd) (\<lambda>features.
     ebind (scaler md features) (\<lambda>features_scaled.
     ebind (base_model md features_scaled) (\<lambda>base_score.
     ebind (apply_personality base_score crd (config md) context z) (\<lambda>adjusted_score.
     Inr (np_clip adjusted_score 0 100)))))"

text \<open>The lookup of the cached artifact, then the scoring.\<close>

definition predict_with_model ::
  "env \<Rightarrow> service \<Rightarrow> pydict \<Rightarrow> string \<Rightarrow> string \<Rightarrow> pydict option \<Rightarrow> real \<Rightarrow> py_error + real" where
  "predict_with_model e st crd set_code bot_personality context z =
     ebind (lookup_model st set_code bot_personality) (\<lambda>md.
     score_with_artifact e md crd context z)"

text \<open>
  The random draws of one call of \<^verbatim>\<open>predict_pick_value\<close>: the value of
  \<^verbatim>\<open>random.random()\<close> behind the fallback's uniform noise, and the standard normal
  draw behind the adjuster's noise. A call uses one of them.
\<close>

type_synonym draw = "real \<times> real"

text \<open>\<^verbatim>\<open>predict_pick_value\<close>\<close>

definition predict_pick_value ::
  "env \<Rightarrow> service \<Rightarrow> pydict \<Rightarrow> string \<Rightarrow> string \<Rightarrow> pydict option \<Rightarrow> draw
     \<Rightarrow> (py_error + real) \<times> service" where
  "predict_pick_value e st crd set_code bot_personality context d =
     (if \<not> model_loaded st set_code bot_personality then
        (case load_bot_model e st set_code bot_personality of
           (False, st') \<Rightarrow> (fallback_evaluation crd bot_personality (fst d), st')
         | (True, st') \<Rightarrow>
             (predict_with_model e st' crd set_code bot_personality context (snd d), st'))
      else (predict_with_model e st crd set_code bot_personality context (snd d), st))"

section \<open>Ranking and selection\<close>

text \<open>
  \<^verbatim>\<open>xs.sort(key=key, reverse=True)\<close>: the list is reversed, sorted by a stable
  ascending sort and reversed again.
\<close>

definition py_sort_reverse :: "('a \<Rightarrow> real) \<Rightarrow> 'a list \<Rightarrow> 'a list" where
  "py_sort_reverse key xs = rev (sort_key key (rev xs))"

text \<open>The loop of \<^verbatim>\<open>get_pick_rankings\<close> from index \<open>i\<close> on; \<open>ds i\<close> holds the
  draws of the call for card \<open>i\<close>.\<close>

fun rank_loop ::
  "env \<Rightarrow> service \<Rightarrow> string \<Rightarrow> string \<Rightarrow> pydict option \<Rightarrow> (nat \<Rightarrow> draw) \<Rightarrow> nat
     \<Rightarrow> pydict list \<Rightarrow> (int \<times> real) list \<Rightarrow> (py_error + (int \<times> real) list) \<times> service" where
  "rank_loop e st set_code bot_personality context ds i [] rankings = (Inr rankings, st)"
| "rank_loop e st set_code bot_personality context ds i (crd # cards) rankings =
     (case predict_pick_value e st crd set_code bot_personality context (ds i) of
        (Inl err, st') \<Rightarrow> (Inl err, st')
      | (Inr score, st') \<Rightarrow>
          rank_loop e st' set_code bot_personality context ds (Suc i) cards
            (rankings @ [(int i, score)]))"

text \<open>\<^verbatim>\<open>get_pick_rankings\<close>\<close>

definition get_pick_rankings ::
  "env \<Rightarrow> service \<Rightarrow> pydict list \<Rightarrow> string \<Rightarrow> string \<Rightarrow> pydict option \<Rightarrow> (nat \<Rightarrow> draw)
     \<Rightarrow> (py_error + (int \<times> real) list) \<times> service" where
  "get_pick_rankings e st cards set_code bot_personality context ds =
     (case rank_loop e st set_code bot_personality context ds 0 cards [] of
        (Inl err, st') \<Rightarrow> (Inl err, st')
      | (Inr rankings, st') \<Rightarrow> (Inr (py_sort_reverse snd rankings), st'))"

definition bronze_config :: profile where
  "bronze_config =
     \<lparr>skill_level = 0.3, randomness = 0.4, rare_bias = 1.5, color_commitment = 0.5\<rparr>"

definition silver_config :: profile where
  "silver_config =
     \<lparr>skill_level = 0.5, randomness = 0.3, rare_bias = 1.2, color_commitment = 0.7\<rparr>"

definition gold_config :: profile where
  "gold_config =
     \<lparr>skill_level = 0.7, randomness = 0.2, rare_bias = 1.0, color_commitment = 0.85\<rparr>"

definition mythic_config :: profile where
  "mythic_config =
     \<lparr>skill_level = 0.9, randomness = 0.1, rare_bias = 0.9, color_commitment = 0.95\<rparr>"

definition BOT_PERSONALITIES :: "(string \<times> profile) list" where
  "BOT_PERSONALITIES =
     [(''bronze'', bronze_config), (''silver'', silver_config),
      (''gold'', gold_config), (''mythic'', mythic_config)]"

text \<open>\<^verbatim>\<open>d[k]\<close> on a literal dictionary\<close>

definition dict_index :: "(string \<times> 'a) list \<Rightarrow> string \<Rightarrow> py_error + 'a" where
  "dict_index d k = (case map_of d k of None \<Rightarrow> Inl KeyError | Some v \<Rightarrow> Inr v)"

text \<open>\<^verbatim>\<open>xs[i]\<close>: a negative index counts from the end.\<close>

definition py_index :: "'a list \<Rightarrow> int \<Rightarrow> py_error + 'a" where
  "py_index xs i =
     (if 0 \<le> i \<and> i < int (length xs) then Inr (xs ! nat i)
      else if i < 0 \<and> - int (length xs) \<le> i then Inr (xs ! nat (int (length xs) + i))
      else Inl IndexError)"

text \<open>\<^verbatim>\<open>itertools.accumulate\<close>: the running sums, starting from \<open>a\<close>.\<close>

fun accumulate_from :: "real \<Rightarrow> real list \<Rightarrow> real list" where
  "accumulate_from a [] = []"
| "accumulate_from a (w # ws) = (a + w) # accumulate_from (a + w) ws"

text \<open>\<^verbatim>\<open>bisect.bisect(a, x, 0, hi)\<close> on an ascending list: the number of leading
  elements of \<open>a[0:hi]\<close> that are at most \<open>x\<close>.\<close>

definition bisect_right :: "real list \<Rightarrow> real \<Rightarrow> nat \<Rightarrow> nat" where
  "bisect_right a x hi = length (takeWhile (\<lambda>c. c \<le> x) (take hi a))"

text \<open>
  \<^verbatim>\<open>random.choices(population, weights=weights)[0]\<close>, with \<open>r\<close> the value of
  the call of \<^verbatim>\<open>random.random()\<close> it makes.
\<close>

definition py_choices :: "'a list \<Rightarrow> real list \<Rightarrow> real \<Rightarrow> py_error + 'a" where
  "py_choices population weights r =
     (let n = length population;
          cum_weights = accumulate_from 0 weights
      in if length cum_weights \<noteq> n then Inl ValueError
         else ebind (py_index cum_weights (- 1)) (\<lambda>total.
              if total \<le> 0 then Inl ValueError
              else py_index population (int (bisect_right cum_weights (r * total) (n - 1)))))"

text \<open>
  \<^verbatim>\<open>choose_pick\<close>; \<open>r1\<close> is the value of \<^verbatim>\<open>random.random()\<close> in the skill test,
  \<open>r2\<close> the one inside \<^verbatim>\<open>random.choices\<close>.
\<close>

definition choose_pick ::
  "env \<Rightarrow> service \<Rightarrow> pydict list \<Rightarrow> string \<Rightarrow> string \<Rightarrow> pydict option \<Rightarrow> (nat \<Rightarrow> draw)
     \<Rightarrow> real \<Rightarrow> real \<Rightarrow> (py_error + int) \<times> service" where
  "choose_pick e st cards set_code bot_personality context ds r1 r2 =
     (case get_pick_rankings e st cards set_code bot_personality context ds of
        (Inl err, st') \<Rightarrow> (Inl err, st')
      | (Inr rankings, st') \<Rightarrow>
          if rankings = [] then (Inr 0, st')
          else
            (ebind (dict_index BOT_PERSONALITIES ''silver'') (\<lambda>dflt.
             let config = (case map_of BOT_PERSONALITIES bot_personality of
                             None \<Rightarrow> dflt
                           | Some c \<Rightarrow> c)
             in if r1 < skill_level config then
                  ebind (py_index rankings 0) (\<lambda>top. Inr (fst top))
                else
                  let pick_range = min 3 (length rankings);
                      weights = take pick_range [0.6, 0.3, 0.1]
                  in ebind (py_choices (map int [0..<pick_range]) weights r2) (\<lambda>choice_idx.
                     ebind (py_index rankings choice_idx) (\<lambda>chosen. Inr (fst chosen)))),
             st'))"

section \<open>The specification's vocabulary\<close>

text \<open>A case-insensitive substring test: both sides are lower-cased.\<close>

definition ci_contains :: "string \<Rightarrow> string \<Rightarrow> bool" where
  "ci_contains kw txt = sublist (str_lower kw) (str_lower txt)"

definition spec_indicator :: "bool \<Rightarrow> real" where
  "spec_indicator b = (if b then 1 else 0)"

text \<open>common = 1, uncommon = 2, rare = 3, mythic = 4, anything else 1.\<close>

definition spec_rarity_ordinal :: "pyval \<Rightarrow> real" where
  "spec_rarity_ordinal rarity =
     (if rarity = PStr ''common'' then 1
      else if rarity = PStr ''uncommon'' then 2
      else if rarity = PStr ''rare'' then 3
      else if rarity = PStr ''mythic'' then 4
      else 1)"

text \<open>An attribute as a float, \<open>0.0\<close> when it is missing or not numeric.\<close>

definition spec_float_or_zero :: "(string \<Rightarrow> real option) \<Rightarrow> pyval option \<Rightarrow> real" where
  "spec_float_or_zero sf attr =
     (case attr of
        None \<Rightarrow> 0
      | Some x \<Rightarrow> (case py_float sf x of Inl err \<Rightarrow> 0 | Inr r \<Rightarrow> r))"

text \<open>The length of the colour list, \<open>0\<close> when it is absent or not a list.\<close>

definition spec_color_count :: "pyval option \<Rightarrow> real" where
  "spec_color_count attr = (case attr of Some (PList xs) \<Rightarrow> real (length xs) | _ \<Rightarrow> 0)"

text \<open>The number of distinct colours of the colour list, \<open>0\<close> when it is absent or
  not a list.\<close>

definition spec_distinct_color_count :: "pyval option \<Rightarrow> real" where
  "spec_distinct_color_count attr =
     (case attr of Some (PList xs) \<Rightarrow> real (length (remdups xs)) | _ \<Rightarrow> 0)"

text \<open>The type classification text of a card, empty when absent.\<close>

definition spec_type_text :: "pydict \<Rightarrow> string" where
  "spec_type_text crd = (case map_of crd ''type_line'' of Some (PStr t) \<Rightarrow> t | _ \<Rightarrow> [])"

text \<open>The rarity of a card, common when absent.\<close>

definition spec_rarity :: "pydict \<Rightarrow> pyval" where
  "spec_rarity crd = (case map_of crd ''rarity'' of None \<Rightarrow> PStr ''common'' | Some r \<Rightarrow> r)"

text \<open>The eleven components in their order, with \<open>cnt\<close> for the last one.\<close>

definition spec_features ::
  "(pyval option \<Rightarrow> real) \<Rightarrow> (string \<Rightarrow> real option) \<Rightarrow> pydict \<Rightarrow> real list" where
  "spec_features cnt sf crd =
     [spec_float_or_zero sf (map_of crd ''cmc''),
      spec_indicator (ci_contains ''creature'' (spec_type_text crd)),
      spec_indicator (ci_contains ''instant'' (spec_type_text crd)),
      spec_indicator (ci_contains ''sorcery'' (spec_type_text crd)),
      spec_indicator (ci_contains ''enchantment'' (spec_type_text crd)),
      spec_indicator (ci_contains ''artifact'' (spec_type_text crd)),
      spec_indicator (ci_contains ''land'' (spec_type_text crd)),
      spec_rarity_ordinal (spec_rarity crd),
      spec_float_or_zero sf (map_of crd ''power''),
      spec_float_or_zero sf (map_of crd ''toughness''),
      cnt (map_of crd ''color_identity'')]"

section \<open>The specification of the fallback evaluator\<close>

text \<open>The ability text of a card, empty when absent.\<close>

definition spec_ability_text :: "pydict \<Rightarrow> string" where
  "spec_ability_text crd = (case map_of crd ''oracle_text'' of Some (PStr t) \<Rightarrow> t | _ \<Rightarrow> [])"

text \<open>common 40, uncommon 55, rare 70, mythic 85, anything else as common.\<close>

definition spec_rarity_base :: "pyval \<Rightarrow> real" where
  "spec_rarity_base rarity =
     (if rarity = PStr ''uncommon'' then 55
      else if rarity = PStr ''rare'' then 70
      else if rarity = PStr ''mythic'' then 85
      else 40)"

definition spec_is_creature :: "pydict \<Rightarrow> bool" where
  "spec_is_creature crd = ci_contains ''creature'' (spec_type_text crd)"

definition spec_has_removal :: "pydict \<Rightarrow> bool" where
  "spec_has_removal crd =
     (ci_contains ''destroy'' (spec_ability_text crd)
      \<or> ci_contains ''exile'' (spec_ability_text crd)
      \<or> ci_contains ''damage'' (spec_ability_text crd)
      \<or> ci_contains ''counter'' (spec_ability_text crd))"

text \<open>bronze 0.8, silver 0.9, gold 1.0, mythic 1.1, anything else 1.0.\<close>

definition spec_personality_scalar :: "string \<Rightarrow> real" where
  "spec_personality_scalar p =
     (if p = ''bronze'' then 0.8
      else if p = ''silver'' then 0.9
      else if p = ''gold'' then 1.0
      else if p = ''mythic'' then 1.1
      else 1.0)"

definition spec_clip :: "real \<Rightarrow> real" where
  "spec_clip x = (if x < 0 then 0 else if 100 < x then 100 else x)"

text \<open>The fallback score for the noise \<open>u\<close>.\<close>

definition spec_fallback :: "pydict \<Rightarrow> string \<Rightarrow> real \<Rightarrow> real" where
  "spec_fallback crd p u =
     spec_clip
       ((spec_rarity_base (spec_rarity crd)
          + (if spec_is_creature crd then 5 else 0)
          + (if spec_has_removal crd then 10 else 0))
        * spec_personality_scalar p + u)"

text \<open>A text attribute is absent or a string.\<close>

definition text_attr_ok :: "pydict \<Rightarrow> string \<Rightarrow> bool" where
  "text_attr_ok crd k =
     (case map_of crd k of None \<Rightarrow> True | Some (PStr s) \<Rightarrow> True | Some other \<Rightarrow> False)"

definition hashable :: "pyval \<Rightarrow> bool" where
  "hashable x = (case py_hash x of Inl err \<Rightarrow> False | Inr k \<Rightarrow> True)"

section \<open>The specification of the personality adjuster\<close>

definition spec_is_rare :: "pydict \<Rightarrow> bool" where
  "spec_is_rare crd =
     (map_of crd ''rarity'' = Some (PStr ''rare'') \<or> map_of crd ''rarity'' = Some (PStr ''mythic''))"

text \<open>The committed colours that the draft context provides, none when it has no set
  of them.\<close>

definition spec_committed_colors :: "pydict option \<Rightarrow> hkey set" where
  "spec_committed_colors context =
     (case context of
        None \<Rightarrow> {}
      | Some d \<Rightarrow> (case map_of d ''picked_colors'' of Some (PSet ks) \<Rightarrow> set ks | _ \<Rightarrow> {}))"

text \<open>The colour set of a card, empty when it has no colour attribute.\<close>

definition spec_item_colors :: "pydict \<Rightarrow> hkey set" where
  "spec_item_colors crd =
     (case map_of crd ''color_identity'' of
        None \<Rightarrow> {}
      | Some x \<Rightarrow> (case py_set x of Inl err \<Rightarrow> {} | Inr ks \<Rightarrow> set ks))"

definition spec_skill_step :: "profile \<Rightarrow> real \<Rightarrow> real \<Rightarrow> real" where
  "spec_skill_step p base_score s = s + (100 - base_score) * (1 - skill_level p) * 0.3"

definition spec_rarity_step :: "profile \<Rightarrow> bool \<Rightarrow> real \<Rightarrow> real" where
  "spec_rarity_step p rare s = (if rare then s * rare_bias p else s)"

text \<open>A normal draw of mean \<open>0\<close> and standard deviation \<open>randomness * 20\<close> is that
  deviation times the standard normal draw \<open>z\<close>.\<close>

definition spec_noise_step :: "profile \<Rightarrow> real \<Rightarrow> real \<Rightarrow> real" where
  "spec_noise_step p z s = s + (randomness p * 20) * z"

definition spec_color_step :: "profile \<Rightarrow> hkey set \<Rightarrow> hkey set \<Rightarrow> real \<Rightarrow> real" where
  "spec_color_step p committed colors s =
     (if committed \<noteq> {} \<and> colors \<noteq> {}
      then s + (real (card (committed \<inter> colors)) / real (card colors)) * color_commitment p * 10
      else s)"

text \<open>The four steps in their order, with no clamp.\<close>

definition spec_adjust ::
  "real \<Rightarrow> bool \<Rightarrow> profile \<Rightarrow> real \<Rightarrow> hkey set \<Rightarrow> hkey set \<Rightarrow> real" where
  "spec_adjust base_score rare p z committed colors =
     spec_color_step p committed colors
       (spec_noise_step p z
         (spec_rarity_step p rare
           (spec_skill_step p base_score base_score)))"

text \<open>The colour data are well typed: the committed colours, when the context has
  them, are a set, and the colour attribute of the card converts to a set.\<close>

definition colors_ok :: "pydict \<Rightarrow> pydict option \<Rightarrow> bool" where
  "colors_ok crd context =
     (case context_picked_colors context of
        None \<Rightarrow> True
      | Some picked \<Rightarrow>
          (case py_set (dict_get crd ''color_identity'' (PList [])) of
             Inl err \<Rightarrow> False
           | Inr cs \<Rightarrow> (case picked of PSet ks \<Rightarrow> True | _ \<Rightarrow> \<not> py_truthy picked \<or> cs = [])))"

section \<open>The artifact a call finds\<close>

text \<open>The artifact that a call of \<^verbatim>\<open>predict_pick_value\<close> finds: the cached one, or on
  a miss the one the loader reads.\<close>

definition artifact_for :: "env \<Rightarrow> service \<Rightarrow> string \<Rightarrow> string \<Rightarrow> model_data option" where
  "artifact_for e st set_code bot_personality =
     (case loaded_models st set_code of
        None \<Rightarrow> unpickle e (str_lower set_code) (bot_personality @ ''_bot.pkl'')
      | Some m \<Rightarrow>
          (case m bot_personality of
             None \<Rightarrow> unpickle e (str_lower set_code) (bot_personality @ ''_bot.pkl'')
           | Some md \<Rightarrow> Some md))"

section \<open>The specification of ranking and selection\<close>

text \<open>A pair \<open>(index, score)\<close> comes before another: by descending score, and by
  ascending index between equal scores.\<close>

definition spec_ranked_before :: "int \<times> real \<Rightarrow> int \<times> real \<Rightarrow> bool" where
  "spec_ranked_before a b = (snd b < snd a \<or> (snd a = snd b \<and> fst a < fst b))"

text \<open>
  The position among the top \<open>min 3 n\<close> of \<open>n\<close> ranked candidates that a uniform
  draw \<open>r2\<close> from \<open>[0, 1)\<close> selects with weights proportional to \<open>0.6, 0.3, 0.1\<close>
  cut to that count: the thresholds on \<open>r2\<close> are the running sums of the weights over
  their total.
\<close>

definition spec_weighted_position :: "nat \<Rightarrow> real \<Rightarrow> nat" where
  "spec_weighted_position n r2 =
     (if n = 1 then 0
      else if n = 2 then (if r2 < 0.6 / (0.6 + 0.3) then 0 else 1)
      else (if r2 < 0.6 / (0.6 + 0.3 + 0.1) then 0
            else if r2 < (0.6 + 0.3) / (0.6 + 0.3 + 0.1) then 1
            else 2))"

text \<open>The position in the ranking that the selection takes: the top one when the
  uniform draw \<open>r1\<close> is below the skill level, else the weighted one.\<close>

definition spec_pick_position :: "real \<Rightarrow> nat \<Rightarrow> real \<Rightarrow> real \<Rightarrow> nat" where
  "spec_pick_position skill n r1 r2 =
     (if r1 < skill then 0 else spec_weighted_position n r2)"

section \<open>Example data\<close>

text \<open>\<^verbatim>\<open>float\<close> on the strings of the examples: \<^verbatim>\<open>float('2') == 2.0\<close>, and
  \<^verbatim>\<open>float('*')\<close> raises \<^verbatim>\<open>ValueError\<close>.\<close>

definition example_str_float :: "string \<Rightarrow> real option" where
  "example_str_float s = (if s = ''2'' then Some 2 else None)"

definition example_card :: pydict where
  "example_card =
     [(''name'', PStr ''Dromoka Captain''),
      (''cmc'', PFloat 3),
      (''type_line'', PStr ''Creature - Human Soldier''),
      (''rarity'', PStr ''rare''),
      (''power'', PStr ''2''),
      (''toughness'', PStr ''*''),
      (''color_identity'', PList [PStr ''G'', PStr ''W'']),
      (''oracle_text'', PStr ''First strike'')]"

definition repeated_color_card :: pydict where
  "repeated_color_card = [(''color_identity'', PList [PStr ''W'', PStr ''W''])]"

text \<open>No model file on disk, nothing cached.\<close>

definition no_models_env :: env where
  "no_models_env = \<lparr>str_float = example_str_float, unpickle = (\<lambda>dir file. None)\<rparr>"

definition empty_service :: service where
  "empty_service = \<lparr>loaded_models = Map.empty\<rparr>"

definition plain_common_card :: pydict where
  "plain_common_card =
     [(''name'', PStr ''Glade Watcher''),
      (''cmc'', PFloat 2),
      (''type_line'', PStr ''Enchantment''),
      (''rarity'', PStr ''common''),
      (''oracle_text'', PStr ''Draw a card.'')]"

definition null_type_card :: pydict where
  "null_type_card = [(''type_line'', PNone)]"

definition green_context :: "pydict option" where
  "green_context = Some [(''picked_colors'', PSet [HStr ''G'', HStr ''B''])]"

text \<open>An artifact whose model answers \<open>250\<close> on every vector and whose scaler is the
  identity.\<close>

definition example_artifact :: model_data where
  "example_artifact =
     \<lparr>base_model = (\<lambda>x. Inr 250), scaler = (\<lambda>x. Inr x), config = silver_config,
      feature_order = extractor_feature_order\<rparr>"

definition silver_file_env :: env where
  "silver_file_env =
     \<lparr>str_float = example_str_float,
      unpickle = (\<lambda>dir file.
        if dir = ''dtk'' \<and> file = ''silver_bot.pkl'' then Some example_artifact else None)\<rparr>"

text \<open>The cache after the silver artifact of \<^verbatim>\<open>DTK\<close> has been loaded.\<close>

definition silver_service :: service where
  "silver_service = \<lparr>loaded_models = [''DTK'' \<mapsto> [''silver'' \<mapsto> example_artifact]]\<rparr>"

text \<open>The extractor's order with power and toughness exchanged.\<close>

definition swapped_feature_order :: "string list" where
  "swapped_feature_order =
     [''cmc'', ''is_creature'', ''is_instant'', ''is_sorcery'', ''is_enchantment'',
      ''is_artifact'', ''is_land'', ''rarity_score'', ''toughness_num'', ''power_num'',
      ''num_colors'']"

text \<open>An artifact that expects the exchanged order: its model scores ten times the
  tenth component, the power in its own order. Scaler and model refuse a vector whose
  length is not eleven.\<close>

definition power_model :: "real list \<Rightarrow> py_error + real" where
  "power_model x = (if length x = 11 then Inr (10 * (x ! 9)) else Inl ValueError)"

definition checking_scaler :: "real list \<Rightarrow> py_error + real list" where
  "checking_scaler x = (if length x = 11 then Inr x else Inl ValueError)"

definition swapped_artifact :: model_data where
  "swapped_artifact =
     \<lparr>base_model = power_model, scaler = checking_scaler, config = gold_config,
      feature_order = swapped_feature_order\<rparr>"

definition swapped_service :: service where
  "swapped_service = \<lparr>loaded_models = [''DTK'' \<mapsto> [''gold'' \<mapsto> swapped_artifact]]\<rparr>"

definition matching_artifact :: model_data where
  "matching_artifact =
     \<lparr>base_model = power_model, scaler = checking_scaler, config = gold_config,
      feature_order = extractor_feature_order\<rparr>"

definition matching_service :: service where
  "matching_service = \<lparr>loaded_models = [''DTK'' \<mapsto> [''gold'' \<mapsto> matching_artifact]]\<rparr>"

text \<open>Three cards of which the first and the last score the same.\<close>

definition tied_cards :: "pydict list" where
  "tied_cards = [plain_common_card, example_card, plain_common_card]"

definition half_draws :: "nat \<Rightarrow> draw" where
  "half_draws i = (1 / 2, 0)"

section \<open>Properties of the feature extractor\<close>

text \<open>The test finds a substring that equals the keyword up to case.\<close>

lemma ci_contains_iff:
  "ci_contains kw txt \<longleftrightarrow> (\<exists>u. sublist u txt \<and> str_lower u = str_lower kw)"
proof
  assume "ci_contains kw txt"
  then obtain ps ss where "map lower_char txt = ps @ map lower_char kw @ ss"
    by (auto simp: ci_contains_def str_lower_def sublist_def)
  then obtain a b c where "txt = a @ b @ c" "map lower_char b = map lower_char kw"
    by (auto simp: map_eq_append_conv append_eq_map_conv)
  then show "\<exists>u. sublist u txt \<and> str_lower u = str_lower kw"
    by (auto simp: str_lower_def)
next
  assume "\<exists>u. sublist u txt \<and> str_lower u = str_lower kw"
  then obtain u ps ss where "txt = ps @ u @ ss" "map lower_char u = map lower_char kw"
    by (auto simp: sublist_def str_lower_def)
  then have "map lower_char txt = map lower_char ps @ map lower_char kw @ map lower_char ss"
    by simp
  then show "ci_contains kw txt"
    unfolding ci_contains_def str_lower_def by (metis sublist_appendI)
qed

lemma py_float_errors: "py_float sf x = Inl err \<Longrightarrow> err = ValueError \<or> err = TypeError"
  by (cases x) (auto split: option.splits)

lemma try_float_or_zero:
  "try_except (py_float sf (dict_get crd k (PInt 0))) [ValueError, TypeError] 0
     = Inr (spec_float_or_zero sf (map_of crd k))"
  by (auto simp: try_except_def spec_float_or_zero_def dict_get_def
      split: sum.splits option.splits dest: py_float_errors)

lemma keyword_lower:
  "str_lower ''creature'' = ''creature''" "str_lower ''instant'' = ''instant''"
  "str_lower ''sorcery'' = ''sorcery''" "str_lower ''enchantment'' = ''enchantment''"
  "str_lower ''artifact'' = ''artifact''" "str_lower ''land'' = ''land''"
  by (simp_all add: str_lower_def lower_char_def)

lemma rarity_ordinal:
  "str_dict_get rarity_map r 1 = Inr i \<Longrightarrow> real_of_int i = spec_rarity_ordinal r"
  by (cases r) (auto simp: str_dict_get_def ebind_def rarity_map_def spec_rarity_ordinal_def
       split: if_splits)

lemma py_lower_Inr: "py_lower x = Inr t \<Longrightarrow> \<exists>s. x = PStr s \<and> t = str_lower s"
  by (cases x) auto

lemma num_colors_count:
  "real (num_colors (dict_get crd ''color_identity'' (PList [])))
     = spec_color_count (map_of crd ''color_identity'')"
  by (auto simp: dict_get_def spec_color_count_def split: option.splits pyval.splits)

text \<open>On a list of pairwise different colours the length is the number of distinct
  colours.\<close>

lemma color_count_distinct:
  "distinct xs \<Longrightarrow> spec_color_count (Some (PList xs)) = spec_distinct_color_count (Some (PList xs))"
  by (simp add: spec_color_count_def spec_distinct_color_count_def distinct_remdups_id)

text \<open>
  C1, as amended. Whenever \<^verbatim>\<open>extract_features\<close> returns, its vector has exactly
  eleven components in this order: the cost value; the six 0/1 indicators for creature,
  instant, sorcery, enchantment, artifact and land, each a case-insensitive substring
  test on the type text; the rarity ordinal (common 1, uncommon 2, rare 3, mythic 4,
  anything else 1); power and toughness as floats, \<open>0.0\<close> when missing or not
  numeric; and the length of the colour list, \<open>0\<close> when it is absent or not a list.
\<close>

theorem extract_features_vector:
  assumes "extract_features sf crd = Inr v"
  shows "v = spec_features spec_color_count sf crd \<and> length v = 11"
proof -
  from assms obtain cmc t i where
    cmc: "py_float sf (dict_get crd ''cmc'' (PInt 0)) = Inr cmc" and
    t: "py_lower (dict_get crd ''type_line'' (PStr '''')) = Inr t" and
    i: "str_dict_get rarity_map (dict_get crd ''rarity'' (PStr ''common'')) 1 = Inr i" and
    v: "v = [cmc, type_indicator ''creature'' t, type_indicator ''instant'' t,
             type_indicator ''sorcery'' t, type_indicator ''enchantment'' t,
             type_indicator ''artifact'' t, type_indicator ''land'' t, real_of_int i,
             spec_float_or_zero sf (map_of crd ''power''),
             spec_float_or_zero sf (map_of crd ''toughness''),
             spec_color_count (map_of crd ''color_identity'')]"
    unfolding extract_features_def
    by (auto simp: ebind_def try_float_or_zero num_colors_count Let_def split: sum.splits)
  from t obtain s where s: "dict_get crd ''type_line'' (PStr '''') = PStr s" "t = str_lower s"
    by (auto dest: py_lower_Inr)
  have tt: "spec_type_text crd = s"
    using s(1) by (auto simp: spec_type_text_def dict_get_def split: option.splits)
  have c: "spec_float_or_zero sf (map_of crd ''cmc'') = cmc"
    using cmc by (auto simp: spec_float_or_zero_def dict_get_def split: option.splits)
  have r: "real_of_int i = spec_rarity_ordinal (spec_rarity crd)"
    using rarity_ordinal[OF i] by (simp add: spec_rarity_def dict_get_def)
  show ?thesis
    unfolding v spec_features_def
    by (simp add: c r tt s(2) type_indicator_def spec_indicator_def ci_contains_def keyword_lower)
qed

lemma extract_features_example:
  "extract_features example_str_float example_card = Inr [3, 1, 0, 0, 0, 0, 0, 3, 2, 0, 2]"
  by (simp add: extract_features_def example_card_def example_str_float_def ebind_def dict_get_def
      try_except_def str_dict_get_def rarity_map_def type_indicator_def str_lower_def lower_char_def
      sublist_Cons_right)

theorem extract_features_vector_witness:
  "extract_features example_str_float example_card = Inr [3, 1, 0, 0, 0, 0, 0, 3, 2, 0, 2]
   \<and> [3, 1, 0, 0, 0, 0, 0, 3, 2, 0, 2] = spec_features spec_color_count example_str_float example_card
   \<and> length [3, 1, 0, 0, 0, 0, 0, 3, 2, 0, 2 :: real] = 11"
proof -
  have "[3, 1, 0, 0, 0, 0, 0, 3, 2, 0, 2]
          = spec_features spec_color_count example_str_float example_card
        \<and> length [3, 1, 0, 0, 0, 0, 0, 3, 2, 0, 2 :: real] = 11"
    by (rule extract_features_vector [OF extract_features_example])
  with extract_features_example show ?thesis by blast
qed

text \<open>
  C1, as stated, has the number of distinct colours as the last component. A card whose
  colour list repeats a colour has one distinct colour and the component \<open>2\<close>.
\<close>

theorem extract_features_distinct_colors_counterexample:
  "extract_features example_str_float repeated_color_card
     = Inr [0, 0, 0, 0, 0, 0, 0, 1, 0, 0, 2]
   \<and> spec_features spec_distinct_color_count example_str_float repeated_color_card
     = [0, 0, 0, 0, 0, 0, 0, 1, 0, 0, 1]
   \<and> extract_features example_str_float repeated_color_card
     \<noteq> Inr (spec_features spec_distinct_color_count example_str_float repeated_color_card)"
  by (simp add: extract_features_def repeated_color_card_def ebind_def dict_get_def
      try_except_def str_dict_get_def rarity_map_def type_indicator_def str_lower_def
      spec_features_def spec_float_or_zero_def spec_indicator_def ci_contains_def
      spec_type_text_def spec_rarity_def spec_rarity_ordinal_def spec_distinct_color_count_def
      lower_char_def sublist_Cons_right)

text \<open>
  C2. A card whose \<^verbatim>\<open>cmc\<close> is \<^verbatim>\<open>None\<close> makes \<^verbatim>\<open>float\<close> raise
  \<^verbatim>\<open>TypeError\<close>, and one whose \<^verbatim>\<open>type_line\<close> is a number makes
  \<^verbatim>\<open>.lower()\<close> raise \<^verbatim>\<open>AttributeError\<close>: neither conversion is guarded, unlike
  those of power and toughness.
\<close>

theorem extract_features_raises:
  "extract_features sf [(''cmc'', PNone)] = Inl TypeError
   \<and> extract_features sf [(''type_line'', PInt 5)] = Inl AttributeError"
  by (simp add: extract_features_def ebind_def dict_get_def)

section \<open>Properties of the fallback path\<close>


lemma load_fails_unchanged:
  "\<not> fst (load_bot_model e st sc p) \<Longrightarrow> load_bot_model e st sc p = (False, st)"
  by (auto simp: load_bot_model_def Let_def split: option.splits)

lemma predict_miss_load_fails:
  assumes "\<not> model_loaded st sc p" "\<not> fst (load_bot_model e st sc p)"
  shows "predict_pick_value e st crd sc p ctx d = (fallback_evaluation crd p (fst d), st)"
  using assms by (simp add: predict_pick_value_def load_fails_unchanged)

lemma removal_lower:
  "str_lower ''destroy'' = ''destroy''" "str_lower ''exile'' = ''exile''"
  "str_lower ''damage'' = ''damage''" "str_lower ''counter'' = ''counter''"
  by (simp_all add: str_lower_def lower_char_def)

lemma rarity_base:
  "hashable r \<Longrightarrow> str_dict_get rarity_scores r 40 = Inr (spec_rarity_base r)"
  by (cases r) (auto simp: hashable_def str_dict_get_def ebind_def rarity_scores_def spec_rarity_base_def)

lemma text_attr_lower:
  "text_attr_ok crd ''type_line'' \<Longrightarrow>
     py_lower (dict_get crd ''type_line'' (PStr '''')) = Inr (str_lower (spec_type_text crd))"
  "text_attr_ok crd ''oracle_text'' \<Longrightarrow>
     py_lower (dict_get crd ''oracle_text'' (PStr '''')) = Inr (str_lower (spec_ability_text crd))"
  by (auto simp: text_attr_ok_def dict_get_def spec_type_text_def spec_ability_text_def str_lower_def
      split: option.splits pyval.splits)

lemma multiplier_scalar:
  "(case map_of personality_multipliers p of None \<Rightarrow> 1.0 | Some m \<Rightarrow> m) = spec_personality_scalar p"
  by (simp add: personality_multipliers_def spec_personality_scalar_def)

lemma np_clip_spec: "np_clip x 0 100 = spec_clip x"
  by (simp add: np_clip_def spec_clip_def min_def max_def)

lemma fallback_spec:
  assumes "text_attr_ok crd ''type_line''" "text_attr_ok crd ''oracle_text''"
    "hashable (spec_rarity crd)"
  shows "fallback_evaluation crd p r = Inr (spec_fallback crd p (py_uniform (- 10) 10 r))"
proof -
  have rar: "dict_get crd ''rarity'' (PStr ''common'') = spec_rarity crd"
    by (simp add: dict_get_def spec_rarity_def)
  show ?thesis
    unfolding fallback_evaluation_def rar
    by (simp add: ebind_def rarity_base[OF assms(3)] text_attr_lower(1)[OF assms(1)]
        text_attr_lower(2)[OF assms(2)] multiplier_scalar np_clip_spec Let_def
        spec_fallback_def spec_is_creature_def spec_has_removal_def ci_contains_def
        removal_words_def keyword_lower removal_lower)
qed

lemma uniform_range: "0 \<le> r \<Longrightarrow> r < 1 \<Longrightarrow> - 10 \<le> py_uniform (- 10) 10 r \<and> py_uniform (- 10) 10 r \<le> 10"
  by (simp add: py_uniform_def)


text \<open>
  C3, as amended. For every personality and every card whose type and ability texts are
  absent or strings and whose rarity is hashable: when the artifact is not cached and the
  loader fails, \<^verbatim>\<open>predict_pick_value\<close> returns the result of the fallback evaluator,
  raises nothing and leaves the cache as it was. The result is the rarity base (common 40,
  uncommon 55, rare 70, mythic 85, unknown as common), plus 5 for a creature, plus 10 for
  a removal keyword, times the personality scalar (bronze 0.8, silver 0.9, gold 1.0,
  mythic 1.1, unknown 1.0), plus a uniform draw in \<open>[-10, 10]\<close>, clipped to
  \<open>[0, 100]\<close>; for a common card that is no creature and has no removal keyword,
  under gold, it lies in \<open>[30, 50]\<close>.
\<close>

theorem predict_fallback:
  assumes "\<not> model_loaded st sc p"
    and "\<not> fst (load_bot_model e st sc p)"
    and "text_attr_ok crd ''type_line''"
    and "text_attr_ok crd ''oracle_text''"
    and "hashable (spec_rarity crd)"
    and "0 \<le> r" and "r < 1"
  shows "predict_pick_value e st crd sc p ctx (r, z) = (fallback_evaluation crd p r, st)
    \<and> fallback_evaluation crd p r = Inr (spec_fallback crd p (py_uniform (- 10) 10 r))
    \<and> - 10 \<le> py_uniform (- 10) 10 r \<and> py_uniform (- 10) 10 r \<le> 10
    \<and> (spec_rarity crd = PStr ''common'' \<and> \<not> spec_is_creature crd \<and> \<not> spec_has_removal crd
          \<and> p = ''gold''
        \<longrightarrow> 30 \<le> spec_fallback crd p (py_uniform (- 10) 10 r)
            \<and> spec_fallback crd p (py_uniform (- 10) 10 r) \<le> 50)"
proof -
  have a: "predict_pick_value e st crd sc p ctx (r, z) = (fallback_evaluation crd p r, st)"
    using predict_miss_load_fails[OF assms(1,2), of crd ctx "(r, z)"] by simp
  have b: "fallback_evaluation crd p r = Inr (spec_fallback crd p (py_uniform (- 10) 10 r))"
    by (rule fallback_spec[OF assms(3,4,5)])
  have c: "- 10 \<le> py_uniform (- 10) 10 r \<and> py_uniform (- 10) 10 r \<le> 10"
    by (rule uniform_range[OF assms(6,7)])
  have d: "30 \<le> spec_fallback crd p (py_uniform (- 10) 10 r)
            \<and> spec_fallback crd p (py_uniform (- 10) 10 r) \<le> 50"
    if "spec_rarity crd = PStr ''common''" "\<not> spec_is_creature crd" "\<not> spec_has_removal crd"
      "p = ''gold''"
    using that c
    by (simp add: spec_fallback_def spec_rarity_base_def spec_personality_scalar_def spec_clip_def)
  from a b c d show ?thesis by blast
qed

lemma plain_common_facts:
  "spec_rarity plain_common_card = PStr ''common''"
  "\<not> spec_is_creature plain_common_card"
  "\<not> spec_has_removal plain_common_card"
  "text_attr_ok plain_common_card ''type_line''"
  "text_attr_ok plain_common_card ''oracle_text''"
  "hashable (spec_rarity plain_common_card)"
  by (simp_all add: plain_common_card_def spec_rarity_def spec_is_creature_def
      spec_has_removal_def text_attr_ok_def hashable_def ci_contains_def spec_type_text_def
      spec_ability_text_def str_lower_def lower_char_def sublist_Cons_right)

lemma no_models_facts:
  "\<not> model_loaded empty_service sc p"
  "\<not> fst (load_bot_model no_models_env empty_service sc p)"
  by (simp_all add: model_loaded_def empty_service_def load_bot_model_def no_models_env_def)

theorem predict_fallback_witness:
  "\<not> model_loaded empty_service ''DTK'' ''gold''
   \<and> \<not> fst (load_bot_model no_models_env empty_service ''DTK'' ''gold'')
   \<and> text_attr_ok plain_common_card ''type_line''
   \<and> text_attr_ok plain_common_card ''oracle_text''
   \<and> hashable (spec_rarity plain_common_card)
   \<and> (0::real) \<le> 1 / 2 \<and> (1::real) / 2 < 1
   \<and> predict_pick_value no_models_env empty_service plain_common_card ''DTK'' ''gold'' None
        (1 / 2, 0) = (Inr 40, empty_service)
   \<and> spec_rarity plain_common_card = PStr ''common''
   \<and> \<not> spec_is_creature plain_common_card \<and> \<not> spec_has_removal plain_common_card
   \<and> spec_fallback plain_common_card ''gold'' (py_uniform (- 10) 10 (1 / 2)) = 40
   \<and> (30::real) \<le> 40 \<and> (40::real) \<le> 50"
proof -
  have v: "spec_fallback plain_common_card ''gold'' (py_uniform (- 10) 10 (1 / 2)) = 40"
    by (simp add: spec_fallback_def plain_common_facts spec_rarity_base_def
        spec_personality_scalar_def spec_clip_def py_uniform_def)
  have "predict_pick_value no_models_env empty_service plain_common_card ''DTK'' ''gold'' None
          (1 / 2, 0)
        = (Inr (spec_fallback plain_common_card ''gold'' (py_uniform (- 10) 10 (1 / 2))),
           empty_service)"
    using predict_fallback [where r = "1 / 2" and ctx = None and z = 0,
        OF no_models_facts plain_common_facts(4,5,6)]
    by simp
  with v show ?thesis by (simp add: plain_common_facts no_models_facts hashable_def)
qed

text \<open>
  C3, as stated, has no error for any card. A card whose \<^verbatim>\<open>type_line\<close> is
  \<^verbatim>\<open>None\<close> makes the fallback evaluator raise \<^verbatim>\<open>AttributeError\<close>, which
  \<^verbatim>\<open>predict_pick_value\<close> passes on.
\<close>

theorem predict_fallback_error_counterexample:
  "\<not> model_loaded empty_service ''DTK'' ''gold''
   \<and> \<not> fst (load_bot_model no_models_env empty_service ''DTK'' ''gold'')
   \<and> fst (predict_pick_value no_models_env empty_service null_type_card ''DTK'' ''gold'' None
        (1 / 2, 0)) = Inl AttributeError"
  by (simp add: no_models_facts predict_miss_load_fails fallback_evaluation_def
      null_type_card_def ebind_def dict_get_def str_dict_get_def)

section \<open>Properties of the personality adjuster\<close>

lemma set_len_card: "set_len ks = card (set ks)"
  by (simp add: set_len_def length_remdups_card_conv)

lemma inter_card:
  "set_len (filter (\<lambda>k. k \<in> set other) ks) = card (set ks \<inter> set other)"
proof -
  have "set (filter (\<lambda>k. k \<in> set other) ks) = set ks \<inter> set other" by auto
  then show ?thesis by (simp add: set_len_card)
qed

lemma is_rare_spec: "is_rare_or_mythic crd = spec_is_rare crd"
  by (auto simp: is_rare_or_mythic_def spec_is_rare_def dict_get_def Let_def split: option.splits)

lemma item_colors_Inr:
  "py_set (dict_get crd ''color_identity'' (PList [])) = Inr cs \<Longrightarrow> spec_item_colors crd = set cs"
  by (auto simp: spec_item_colors_def dict_get_def split: option.splits)

lemma committed_None: "context_picked_colors ctx = None \<Longrightarrow> spec_committed_colors ctx = {}"
  by (auto simp: context_picked_colors_def spec_committed_colors_def split: option.splits if_splits)

lemma committed_Some:
  "context_picked_colors ctx = Some pc \<Longrightarrow>
     spec_committed_colors ctx = (case pc of PSet ks \<Rightarrow> set ks | _ \<Rightarrow> {})"
  by (auto simp: context_picked_colors_def spec_committed_colors_def split: option.splits if_splits)

lemma py_intersection_Inr:
  "py_intersection pc other = Inr cm \<Longrightarrow>
     \<exists>ks. pc = PSet ks \<and> cm = filter (\<lambda>k. k \<in> set other) ks"
  by (cases pc) auto

text \<open>
  C4. Whatever the base score, the card, the profile, the draft context and the draw, a
  result of \<^verbatim>\<open>_apply_personality\<close> is the base score after these four steps, in this
  order and with no clamp: the skill regression
  \<open>score += (100 - base) * (1 - skill_level) * 0.3\<close>; the factor \<open>rare_bias\<close> when
  the rarity is rare or mythic; the normal noise of standard deviation
  \<open>randomness * 20\<close>; and, only when the context provides a non-empty set of committed
  colours and the card has a non-empty colour set, the bonus
  \<open>|committed \<inter> colors| / |colors| * color_commitment * 10\<close>.
\<close>

theorem apply_personality_steps:
  assumes "apply_personality base_score crd p ctx z = Inr v"
  shows "v = spec_adjust base_score (spec_is_rare crd) p z
               (spec_committed_colors ctx) (spec_item_colors crd)"
proof -
  define s3 where "s3 = spec_noise_step p z (spec_rarity_step p (spec_is_rare crd)
     (spec_skill_step p base_score base_score))"
  from assms have nn: "\<not> randomness p * 20 < 0"
    by (auto simp: apply_personality_def np_random_normal_def ebind_def Let_def split: if_splits)
  show ?thesis
  proof (cases "context_picked_colors ctx")
    case None
    with assms nn have "v = s3"
      by (simp add: apply_personality_def np_random_normal_def ebind_def Let_def s3_def
          spec_noise_step_def spec_rarity_step_def spec_skill_step_def is_rare_spec)
    then show ?thesis
      by (simp add: spec_adjust_def spec_color_step_def committed_None[OF None] s3_def)
  next
    case (Some pc)
    from assms nn Some obtain cs where
      cs: "py_set (dict_get crd ''color_identity'' (PList [])) = Inr cs"
      by (auto simp: apply_personality_def np_random_normal_def ebind_def Let_def
          split: sum.splits)
    show ?thesis
    proof (cases "py_truthy pc \<and> cs \<noteq> []")
      case True
      with assms nn Some cs obtain cm where
        i: "py_intersection pc cs = Inr cm" and
        v: "v = s3 + real (set_len cm) / real (set_len cs) * color_commitment p * 10"
        by (auto simp: apply_personality_def np_random_normal_def ebind_def Let_def s3_def
          spec_noise_step_def spec_rarity_step_def spec_skill_step_def is_rare_spec
          split: sum.splits)
      from i obtain ks where ks: "pc = PSet ks" "cm = filter (\<lambda>k. k \<in> set cs) ks"
        by (auto dest: py_intersection_Inr)
      from True ks have ne: "set ks \<noteq> {}" "set cs \<noteq> {}" by auto
      have ic: "set_len cm = card (set ks \<inter> set cs)"
        unfolding ks(2) by (rule inter_card)
      show ?thesis
        using ne
        unfolding v ic set_len_card [of cs]
        by (simp add: ks(1) spec_adjust_def spec_color_step_def committed_Some[OF Some]
            item_colors_Inr[OF cs] s3_def)
    next
      case False
      with assms nn Some cs have v: "v = s3"
        by (auto simp: apply_personality_def np_random_normal_def ebind_def Let_def s3_def
          spec_noise_step_def spec_rarity_step_def spec_skill_step_def is_rare_spec)
      from False have "spec_committed_colors ctx = {} \<or> spec_item_colors crd = {}"
        by (cases pc) (auto simp: committed_Some[OF Some] item_colors_Inr[OF cs])
      then show ?thesis
        by (auto simp: v spec_adjust_def spec_color_step_def s3_def)
    qed
  qed
qed

text \<open>The adjuster returns whenever the randomness is not negative and the colour data
  are well typed.\<close>

lemma apply_personality_returns:
  assumes "0 \<le> randomness p" "colors_ok crd ctx"
  shows "\<exists>v. apply_personality base_score crd p ctx z = Inr v"
  using assms
  by (auto simp: apply_personality_def np_random_normal_def ebind_def Let_def colors_ok_def
      split: option.splits sum.splits pyval.splits)

lemma apply_personality_example:
  "apply_personality 50 example_card silver_config green_context 1 = Inr (157 / 2)"
  by (simp add: apply_personality_def example_card_def silver_config_def green_context_def
      np_random_normal_def ebind_def Let_def context_picked_colors_def dict_get_def
      is_rare_or_mythic_def set_len_def)

theorem apply_personality_steps_witness:
  "apply_personality 50 example_card silver_config green_context 1 = Inr (157 / 2)
   \<and> 157 / 2 = spec_adjust 50 (spec_is_rare example_card) silver_config 1
        (spec_committed_colors green_context) (spec_item_colors example_card)"
  using apply_personality_steps [OF apply_personality_example] apply_personality_example
  by blast

section \<open>Properties of the prediction\<close>

lemma np_clip_range: "0 \<le> np_clip x 0 100 \<and> np_clip x 0 100 \<le> 100"
  by (simp add: np_clip_def min_def max_def)

lemma fallback_range:
  "fallback_evaluation crd p r = Inr v \<Longrightarrow> 0 \<le> v \<and> v \<le> 100"
  unfolding fallback_evaluation_def
  by (auto simp: ebind_def Let_def np_clip_range split: sum.splits)

lemma predict_with_model_range:
  "predict_with_model e st crd sc p ctx z = Inr v \<Longrightarrow> 0 \<le> v \<and> v \<le> 100"
  unfolding predict_with_model_def score_with_artifact_def
  by (auto simp: ebind_def np_clip_range split: sum.splits)

text \<open>
  C5. Every value that \<^verbatim>\<open>predict_pick_value\<close> returns lies in \<open>[0, 100]\<close>, for
  every card, set code, personality, draft context, cache content, artifact (so every
  output of its model) and draws: the model path clips after the personality
  adjustment, the fallback path clips its own result.
\<close>

theorem predict_in_range:
  assumes "fst (predict_pick_value e st crd sc p ctx d) = Inr v"
  shows "0 \<le> v \<and> v \<le> 100"
  using assms
  by (auto simp: predict_pick_value_def split: if_splits prod.splits bool.splits
      dest: fallback_range predict_with_model_range)

lemma silver_file_loaded:
  "load_bot_model silver_file_env empty_service ''DTK'' ''silver'' = (True, silver_service)"
  by (simp add: load_bot_model_def silver_file_env_def empty_service_def str_lower_def
      lower_char_def silver_service_def)

lemma predict_with_model_example:
  "predict_with_model silver_file_env silver_service example_card ''DTK'' ''silver''
     green_context 1 = Inr 100"
proof -
  have l: "lookup_model silver_service ''DTK'' ''silver'' = Inr example_artifact"
    by (simp add: lookup_model_def silver_service_def)
  have f: "extract_features (str_float silver_file_env) example_card
             = Inr [3, 1, 0, 0, 0, 0, 0, 3, 2, 0, 2]"
    by (simp add: silver_file_env_def extract_features_example)
  have a: "apply_personality 250 example_card silver_config green_context 1 = Inr (565 / 2)"
    by (simp add: apply_personality_def example_card_def silver_config_def green_context_def
      np_random_normal_def ebind_def Let_def context_picked_colors_def dict_get_def
      is_rare_or_mythic_def set_len_def)
  show ?thesis
    by (simp add: predict_with_model_def score_with_artifact_def l f ebind_def
        example_artifact_def a np_clip_def)
qed

lemma predict_example:
  "fst (predict_pick_value silver_file_env empty_service example_card ''DTK'' ''silver''
     green_context (0, 1)) = Inr 100"
proof -
  have m: "\<not> model_loaded empty_service ''DTK'' ''silver''"
    by (simp add: model_loaded_def empty_service_def)
  show ?thesis
    by (simp add: predict_pick_value_def m silver_file_loaded predict_with_model_example)
qed

theorem predict_in_range_witness:
  "fst (predict_pick_value silver_file_env empty_service example_card ''DTK'' ''silver''
     green_context (0, 1)) = Inr 100 \<and> (0::real) \<le> 100 \<and> (100::real) \<le> 100"
  using predict_in_range [OF predict_example] predict_example by blast

section \<open>The artifact's feature order\<close>

lemma predict_found:
  assumes "artifact_for e st sc p = Some md"
  shows "fst (predict_pick_value e st crd sc p ctx d) = score_with_artifact e md crd ctx (snd d)"
proof (cases "model_loaded st sc p")
  case True
  with assms have "lookup_model st sc p = Inr md"
    by (auto simp: model_loaded_def lookup_model_def artifact_for_def split: option.splits)
  with True show ?thesis
    by (simp add: predict_pick_value_def predict_with_model_def ebind_def)
next
  case False
  with assms have u: "unpickle e (str_lower sc) (p @ ''_bot.pkl'') = Some md"
    by (auto simp: model_loaded_def artifact_for_def split: option.splits)
  obtain st' where l: "load_bot_model e st sc p = (True, st')"
    and k: "lookup_model st' sc p = Inr md"
    using u by (auto simp: load_bot_model_def lookup_model_def Let_def)
  from False l k show ?thesis
    by (simp add: predict_pick_value_def predict_with_model_def ebind_def)
qed

lemma score_with_artifact_cong:
  assumes "str_float e' = str_float e" "base_model md' = base_model md"
    "scaler md' = scaler md" "config md' = config md"
  shows "score_with_artifact e' md' crd ctx z = score_with_artifact e md crd ctx z"
  using assms by (simp add: score_with_artifact_def)

text \<open>
  C8, as amended. \<^verbatim>\<open>predict_pick_value\<close> compares nothing with the feature order that
  the artifact expects: when an artifact is found, the outcome of the call, score or
  exception, is that of the scoring with the artifact's model, scaler and config, so two
  artifacts that differ only in the order they expect give the same outcome on every
  card.
\<close>

theorem predict_ignores_feature_order:
  assumes "artifact_for e st sc p = Some md"
    and "artifact_for e' st' sc p = Some md'"
    and "str_float e' = str_float e"
    and "base_model md' = base_model md"
    and "scaler md' = scaler md"
    and "config md' = config md"
  shows "fst (predict_pick_value e' st' crd sc p ctx d)
           = fst (predict_pick_value e st crd sc p ctx d)"
  by (simp add: predict_found[OF assms(1)] predict_found[OF assms(2)]
      score_with_artifact_cong[OF assms(3-6)])

lemma swapped_found:
  "artifact_for no_models_env swapped_service ''DTK'' ''gold'' = Some swapped_artifact"
  "artifact_for no_models_env matching_service ''DTK'' ''gold'' = Some matching_artifact"
  by (simp_all add: artifact_for_def swapped_service_def matching_service_def)

lemma swapped_score:
  "score_with_artifact no_models_env swapped_artifact example_card None 0 = Inr 9"
proof -
  have f: "extract_features (str_float no_models_env) example_card
             = Inr [3, 1, 0, 0, 0, 0, 0, 3, 2, 0, 2]"
    by (simp add: no_models_env_def extract_features_example)
  have a: "apply_personality 0 example_card gold_config None 0 = Inr 9"
    by (simp add: apply_personality_def gold_config_def np_random_normal_def ebind_def Let_def
        context_picked_colors_def)
  show ?thesis
    by (simp add: score_with_artifact_def f ebind_def swapped_artifact_def checking_scaler_def
        power_model_def a np_clip_def)
qed

text \<open>
  C8, as stated, has a failure whenever the artifact's order disagrees with the
  extractor's. With a cached artifact that expects power and toughness exchanged, the
  call returns the score \<open>9\<close>, computed from the toughness where the model expects
  the power.
\<close>

theorem predict_order_mismatch_counterexample:
  "artifact_for no_models_env swapped_service ''DTK'' ''gold'' = Some swapped_artifact
   \<and> length (feature_order swapped_artifact) = length extractor_feature_order
   \<and> feature_order swapped_artifact \<noteq> extractor_feature_order
   \<and> fst (predict_pick_value no_models_env swapped_service example_card ''DTK'' ''gold''
        None (0, 0)) = Inr 9"
  by (simp add: swapped_found predict_found[OF swapped_found(1)] swapped_score)
    (simp add: swapped_artifact_def swapped_feature_order_def extractor_feature_order_def)

theorem predict_ignores_feature_order_witness:
  "artifact_for no_models_env swapped_service ''DTK'' ''gold'' = Some swapped_artifact
   \<and> artifact_for no_models_env matching_service ''DTK'' ''gold'' = Some matching_artifact
   \<and> str_float no_models_env = str_float no_models_env
   \<and> base_model matching_artifact = base_model swapped_artifact
   \<and> scaler matching_artifact = scaler swapped_artifact
   \<and> config matching_artifact = config swapped_artifact
   \<and> feature_order matching_artifact \<noteq> feature_order swapped_artifact
   \<and> fst (predict_pick_value no_models_env matching_service example_card ''DTK'' ''gold''
        None (0, 0))
     = fst (predict_pick_value no_models_env swapped_service example_card ''DTK'' ''gold''
        None (0, 0))"
proof -
  have m: "base_model matching_artifact = base_model swapped_artifact"
    "scaler matching_artifact = scaler swapped_artifact"
    "config matching_artifact = config swapped_artifact"
    "feature_order matching_artifact \<noteq> feature_order swapped_artifact"
    by (simp_all add: matching_artifact_def swapped_artifact_def swapped_feature_order_def
        extractor_feature_order_def)
  show ?thesis
    using predict_ignores_feature_order [OF swapped_found(1) swapped_found(2) refl m(1,2,3),
        of example_card None "(0, 0)"]
    by (simp add: swapped_found m)
qed

section \<open>Properties of the ranking\<close>

lemma py_sort_reverse_mset: "mset (py_sort_reverse key xs) = mset xs"
  by (simp add: py_sort_reverse_def)

lemma py_sort_reverse_descending:
  "sorted_wrt (\<lambda>a b. key b \<le> key a) (py_sort_reverse key xs)"
proof -
  have "sorted (map key (sort_key key (rev xs)))" by simp
  then have "sorted_wrt (\<lambda>a b. key a \<le> key b) (sort_key key (rev xs))"
    by (simp add: sorted_map)
  then show ?thesis
    unfolding py_sort_reverse_def by (simp add: sorted_wrt_rev)
qed

lemma py_sort_reverse_stable:
  "filter (\<lambda>y. key y = k) (py_sort_reverse key xs) = filter (\<lambda>y. key y = k) xs"
proof -
  have "filter (\<lambda>y. key y = k) (py_sort_reverse key xs)
          = rev (filter (\<lambda>y. key y = k) (sort_key key (rev xs)))"
    by (simp add: py_sort_reverse_def rev_filter)
  also have "\<dots> = rev (filter (\<lambda>y. key y = k) (rev xs))"
    by (simp only: sort_key_stable)
  also have "\<dots> = filter (\<lambda>y. key y = k) xs"
    by (simp add: rev_filter)
  finally show ?thesis .
qed

lemma sorted_wrt_ties:
  fixes key :: "'a \<Rightarrow> 'b::linorder"
  assumes "sorted_wrt (\<lambda>a b. key b \<le> key a) ys"
    and "\<And>k. sorted_wrt R (filter (\<lambda>y. key y = k) ys)"
  shows "sorted_wrt (\<lambda>a b. key b < key a \<or> (key a = key b \<and> R a b)) ys"
  using assms
proof (induction ys)
  case Nil
  then show ?case by simp
next
  case (Cons a ys)
  have tail: "sorted_wrt R (filter (\<lambda>y. key y = k) ys)" for k
    using Cons.prems(2)[of k] by (cases "key a = k") auto
  have head: "key b < key a \<or> (key a = key b \<and> R a b)" if "b \<in> set ys" for b
  proof (cases "key a = key b")
    case True
    have "sorted_wrt R (a # filter (\<lambda>y. key y = key a) ys)"
      using Cons.prems(2)[of "key a"] by simp
    with that True show ?thesis by auto
  next
    case False
    with Cons.prems(1) that show ?thesis by (auto simp: less_le)
  qed
  from Cons.prems(1) have "sorted_wrt (\<lambda>a b. key b \<le> key a) ys" by simp
  from Cons.IH[OF this tail] head show ?case by simp
qed

lemma sorted_wrt_filter_map:
  "sorted_wrt (<) (map f xs) \<Longrightarrow> sorted_wrt (\<lambda>a b. f a < f b) (filter P xs)"
  by (induction xs) (auto)

lemma py_sort_reverse_ranked:
  fixes xs :: "(int \<times> real) list"
  assumes "sorted_wrt (<) (map fst xs)"
  shows "sorted_wrt spec_ranked_before (py_sort_reverse snd xs)"
proof -
  have "sorted_wrt (\<lambda>a b. snd b < snd a \<or> (snd a = snd b \<and> fst a < fst b))
          (py_sort_reverse snd xs)"
  proof (rule sorted_wrt_ties)
    show "sorted_wrt (\<lambda>a b. snd b \<le> snd a) (py_sort_reverse snd xs)"
      by (rule py_sort_reverse_descending)
  next
    fix k
    show "sorted_wrt (\<lambda>a b. fst a < fst b)
            (filter (\<lambda>y. snd y = k) (py_sort_reverse snd xs))"
      unfolding py_sort_reverse_stable
      by (rule sorted_wrt_filter_map[OF assms])
  qed
  then show ?thesis
    by (simp add: spec_ranked_before_def[abs_def])
qed

lemma rank_loop_indices:
  "fst (rank_loop e st sc p ctx ds i cards acc) = Inr rs \<Longrightarrow>
     rs = acc @ drop (length acc) rs
     \<and> map fst (drop (length acc) rs) = map int [i..<i + length cards]"
proof (induction cards arbitrary: st i acc)
  case Nil
  then show ?case by simp
next
  case (Cons crd cards)
  obtain res st1 where pr: "predict_pick_value e st crd sc p ctx (ds i) = (res, st1)"
    by (cases "predict_pick_value e st crd sc p ctx (ds i)")
  show ?case
  proof (cases res)
    case (Inl err)
    with Cons.prems pr show ?thesis by simp
  next
    case (Inr score)
    with Cons.prems pr
    have "fst (rank_loop e st1 sc p ctx ds (Suc i) cards (acc @ [(int i, score)])) = Inr rs"
      by simp
    from Cons.IH[OF this]
    have a: "rs = (acc @ [(int i, score)]) @ drop (Suc (length acc)) rs"
      and b: "map fst (drop (Suc (length acc)) rs) = map int [Suc i..<Suc i + length cards]"
      by simp_all
    from a have d: "drop (length acc) rs = (int i, score) # drop (Suc (length acc)) rs"
      by (metis append.assoc append_Cons append_Nil append_eq_conv_conj)
    have c: "rs = acc @ drop (length acc) rs"
      using a d by simp
    have "i < i + length (crd # cards)" by simp
    from upt_conv_Cons[OF this]
    have "[i..<i + length (crd # cards)] = i # [Suc i..<Suc i + length cards]"
      by simp
    with b c d show ?thesis by simp
  qed
qed

lemma get_pick_rankings_scored:
  assumes "fst (get_pick_rankings e st cards sc p ctx ds) = Inr rs"
  shows "\<exists>scored. fst (rank_loop e st sc p ctx ds 0 cards []) = Inr scored
           \<and> rs = py_sort_reverse snd scored
           \<and> map fst scored = map int [0..<length cards]"
proof -
  from assms obtain scored where
    l: "fst (rank_loop e st sc p ctx ds 0 cards []) = Inr scored" and
    rs: "rs = py_sort_reverse snd scored"
    by (auto simp: get_pick_rankings_def split: prod.splits sum.splits)
  from rank_loop_indices[OF l] have "map fst scored = map int [0..<length cards]"
    by simp
  with l rs show ?thesis by blast
qed

lemma get_pick_rankings_length:
  assumes "fst (get_pick_rankings e st cards sc p ctx ds) = Inr rs"
  shows "length rs = length cards"
proof -
  from get_pick_rankings_scored[OF assms] obtain scored where
    rs: "rs = py_sort_reverse snd scored" and
    ix: "map fst scored = map int [0..<length cards]"
    by blast
  from ix have "length scored = length cards"
    by (metis length_map length_upt diff_zero)
  then show ?thesis by (simp add: rs py_sort_reverse_def)
qed

text \<open>
  C6. Whatever the candidate list, a result of \<^verbatim>\<open>get_pick_rankings\<close> holds the pairs
  \<open>(index, score)\<close> that the loop collected, every original index once, in descending
  order of score; pairs of equal score are in ascending order of their original index.
\<close>

theorem get_pick_rankings_sorted:
  assumes "fst (get_pick_rankings e st cards sc p ctx ds) = Inr rs"
  shows "sorted_wrt spec_ranked_before rs
    \<and> mset (map fst rs) = mset (map int [0..<length cards])
    \<and> (\<exists>scored. fst (rank_loop e st sc p ctx ds 0 cards []) = Inr scored
          \<and> map fst scored = map int [0..<length cards]
          \<and> mset rs = mset scored)"
proof -
  from get_pick_rankings_scored[OF assms] obtain scored where
    l: "fst (rank_loop e st sc p ctx ds 0 cards []) = Inr scored" and
    rs: "rs = py_sort_reverse snd scored" and
    ix: "map fst scored = map int [0..<length cards]"
    by blast
  have "sorted_wrt (<) (map int [0..<length cards])"
    by (simp add: sorted_wrt_map)
  with ix have "sorted_wrt (<) (map fst scored)" by simp
  then have a: "sorted_wrt spec_ranked_before rs"
    unfolding rs by (rule py_sort_reverse_ranked)
  have m: "mset rs = mset scored"
    unfolding rs by (rule py_sort_reverse_mset)
  then have "mset (map fst rs) = mset (map fst scored)"
    by (metis mset_map)
  with ix have b: "mset (map fst rs) = mset (map int [0..<length cards])" by simp
  from a b l ix m show ?thesis by blast
qed

lemma fallback_plain: "fallback_evaluation plain_common_card ''gold'' (1 / 2) = Inr 40"
  using fallback_spec[OF plain_common_facts(4,5,6), of "''gold''" "1 / 2"]
  by (simp add: spec_fallback_def plain_common_facts spec_rarity_base_def
        spec_personality_scalar_def spec_clip_def py_uniform_def)

lemma example_card_facts:
  "spec_rarity example_card = PStr ''rare''"
  "spec_is_creature example_card"
  "\<not> spec_has_removal example_card"
  "text_attr_ok example_card ''type_line''"
  "text_attr_ok example_card ''oracle_text''"
  "hashable (spec_rarity example_card)"
  by (simp_all add: example_card_def spec_rarity_def spec_is_creature_def
      spec_has_removal_def text_attr_ok_def hashable_def ci_contains_def spec_type_text_def
      spec_ability_text_def str_lower_def lower_char_def sublist_Cons_right)

lemma fallback_example: "fallback_evaluation example_card ''gold'' (1 / 2) = Inr 75"
  using fallback_spec[OF example_card_facts(4,5,6), of "''gold''" "1 / 2"]
  by (simp add: spec_fallback_def example_card_facts spec_rarity_base_def
        spec_personality_scalar_def spec_clip_def py_uniform_def)

lemma predict_no_models:
  "predict_pick_value no_models_env empty_service crd sc p ctx d
     = (fallback_evaluation crd p (fst d), empty_service)"
  by (rule predict_miss_load_fails[OF no_models_facts])

lemma rank_loop_tied:
  "rank_loop no_models_env empty_service ''DTK'' ''gold'' None half_draws 0 tied_cards []
     = (Inr [(0, 40), (1, 75), (2, 40)], empty_service)"
  by (simp add: tied_cards_def predict_no_models half_draws_def fallback_plain fallback_example)

lemma rankings_tied:
  "get_pick_rankings no_models_env empty_service tied_cards ''DTK'' ''gold'' None half_draws
     = (Inr [(1, 75), (0, 40), (2, 40)], empty_service)"
  by (simp add: get_pick_rankings_def rank_loop_tied py_sort_reverse_def)

theorem get_pick_rankings_sorted_witness:
  "fst (get_pick_rankings no_models_env empty_service tied_cards ''DTK'' ''gold'' None
      half_draws) = Inr [(1, 75), (0, 40), (2, 40)]
   \<and> sorted_wrt spec_ranked_before [(1, 75), (0, 40), (2, 40)]
   \<and> mset (map fst [(1 :: int, 75 :: real), (0, 40), (2, 40)])
        = mset (map int [0..<length tied_cards])"
proof -
  have r: "fst (get_pick_rankings no_models_env empty_service tied_cards ''DTK'' ''gold'' None
      half_draws) = Inr [(1, 75), (0, 40), (2, 40)]"
    by (simp add: rankings_tied)
  from get_pick_rankings_sorted [OF r] r show ?thesis by blast
qed

section \<open>Properties of the selection\<close>

text \<open>
  C7, as amended. On the empty candidate list \<^verbatim>\<open>choose_pick\<close> returns \<open>0\<close>, whatever
  the set code, the personality, the draft context and the draws; it raises nothing and
  leaves the cache as it was. The value \<open>0\<close> is the one the guard
  \<^verbatim>\<open>if not rankings: return 0\<close> fixes, and it is also the index of a first candidate.
\<close>

theorem choose_pick_empty:
  "choose_pick e st [] sc p ctx ds r1 r2 = (Inr 0, st)"
  by (simp add: choose_pick_def get_pick_rankings_def py_sort_reverse_def)

lemma py_choices_top3:
  assumes "1 \<le> n"
  shows "py_choices (map int [0..<min 3 n]) (take (min 3 n) [0.6, 0.3, 0.1]) r2
           = Inr (int (spec_weighted_position n r2))"
proof -
  consider "n = 1" | "n = 2" | "3 \<le> n" using assms by linarith
  then show ?thesis
  proof cases
    case 1
    then show ?thesis
      by (simp add: py_choices_def py_index_def bisect_right_def ebind_def
          spec_weighted_position_def)
  next
    case 2
    then have m: "min 3 n = 2" by simp
    have u: "[0..<2] = [0, 1]" by (simp add: upt_rec)
    show ?thesis
      unfolding m
      by (simp add: 2 u py_choices_def py_index_def bisect_right_def ebind_def
          spec_weighted_position_def numeral_2_eq_2 field_simps)
  next
    case 3
    then have m: "min 3 n = 3" by simp
    have u: "[0..<3] = [0, 1, 2]" by (simp add: upt_rec)
    have t: "take 3 [0.6, 0.3, 0.1 :: real] = [0.6, 0.3, 0.1]" by simp
    have t2: "take 2 [0.6, 0.9, 1 :: real] = [0.6, 0.9]" by (simp add: numeral_2_eq_2)
    from 3 have n: "n \<noteq> 1" "n \<noteq> 2" by simp_all
    show ?thesis
      unfolding m using n
      by (simp add: u t t2 py_choices_def py_index_def bisect_right_def ebind_def
          spec_weighted_position_def)
  qed
qed

lemma py_choices_top3_norm:
  assumes "1 \<le> n"
  shows "py_choices (map int [0..<min 3 n]) (take (min 3 n) [3 / 5, 3 / 10, 1 / 10]) r2
           = Inr (int (spec_weighted_position n r2))"
  using py_choices_top3[OF assms, of r2] by simp

lemma spec_weighted_position_bound:
  "1 \<le> n \<Longrightarrow> spec_weighted_position n r2 < min 3 n"
  by (auto simp: spec_weighted_position_def)

text \<open>A list of one card gives index \<open>0\<close> for all draws.\<close>

lemma rankings_single:
  "get_pick_rankings no_models_env empty_service [plain_common_card] ''DTK'' ''gold'' None
     half_draws = (Inr [(0, 40)], empty_service)"
  by (simp add: get_pick_rankings_def py_sort_reverse_def predict_no_models half_draws_def
      fallback_plain)

lemma choose_pick_single:
  "choose_pick no_models_env empty_service [plain_common_card] ''DTK'' ''gold'' None
     half_draws r1 r2 = (Inr 0, empty_service)"
proof -
  have c: "py_choices (map int [0..<min 3 (length [(0 :: int, 40 :: real)])])
             (take (min 3 (length [(0 :: int, 40 :: real)])) [3 / 5, 3 / 10, 1 / 10]) r2
           = Inr 0"
    using py_choices_top3_norm[of "length [(0 :: int, 40 :: real)]" r2]
    by (simp add: spec_weighted_position_def)
  show ?thesis
    using c
    by (simp add: choose_pick_def rankings_single dict_index_def BOT_PERSONALITIES_def
        ebind_def Let_def py_index_def)
qed

text \<open>
  C7, as stated, has a no-pick sentinel for the empty list. The value returned there,
  \<open>0\<close>, is also what \<^verbatim>\<open>choose_pick\<close> returns for a real pick: a list of one card
  gives \<open>0\<close> on either branch of the skill test, so the caller cannot tell no pick
  from the pick of the first card.
\<close>

theorem choose_pick_sentinel_counterexample:
  "choose_pick no_models_env empty_service [] ''DTK'' ''gold'' None half_draws (9 / 10) (1 / 2)
     = (Inr 0, empty_service)
   \<and> choose_pick no_models_env empty_service [plain_common_card] ''DTK'' ''gold'' None
       half_draws (9 / 10) (1 / 2) = (Inr 0, empty_service)
   \<and> choose_pick no_models_env empty_service [plain_common_card] ''DTK'' ''gold'' None
       half_draws (1 / 10) (1 / 2) = (Inr 0, empty_service)"
proof -
  have "choose_pick no_models_env empty_service [] ''DTK'' ''gold'' None half_draws
          (9 / 10) (1 / 2) = (Inr 0, empty_service)"
    by (simp add: choose_pick_def get_pick_rankings_def py_sort_reverse_def)
  then show ?thesis by (simp only: choose_pick_single simp_thms)
qed

text \<open>
  C10. For a non-empty candidate list and a personality other than bronze, silver, gold
  and mythic, \<^verbatim>\<open>choose_pick\<close> uses the silver profile, of skill level \<open>0.5\<close>: it
  returns the original index of the top-ranked candidate when the uniform draw \<open>r1\<close> is
  below \<open>0.5\<close>, and otherwise that of one of the top \<open>min 3 n\<close> ranked candidates,
  selected by the uniform draw \<open>r2\<close> with weights proportional to \<open>0.6, 0.3, 0.1\<close> cut
  to that count. The fallback evaluator gives the same personality the multiplier
  \<open>1.0\<close>.
\<close>

theorem choose_pick_unknown_personality:
  assumes "get_pick_rankings e st cards sc p ctx ds = (Inr rs, st')"
    and "cards \<noteq> []"
    and "p \<notin> {''bronze'', ''silver'', ''gold'', ''mythic''}"
  shows "choose_pick e st cards sc p ctx ds r1 r2
           = (Inr (fst (rs ! spec_pick_position (1 / 2) (length rs) r1 r2)), st')
    \<and> spec_pick_position (1 / 2) (length rs) r1 r2 < min 3 (length rs)
    \<and> length rs = length cards
    \<and> skill_level silver_config = 1 / 2
    \<and> (case map_of personality_multipliers p of None \<Rightarrow> 1.0 | Some m \<Rightarrow> m) = 1"
proof -
  have len: "length rs = length cards"
    using get_pick_rankings_length[of e st cards sc p ctx ds rs] assms(1) by simp
  with assms(2) have n1: "1 \<le> length rs" by (cases cards) auto
  then have ne: "rs \<noteq> []" by auto
  have silver: "dict_index BOT_PERSONALITIES ''silver'' = Inr silver_config"
    by (simp add: dict_index_def BOT_PERSONALITIES_def)
  have unk: "map_of BOT_PERSONALITIES p = None"
    using assms(3) by (simp add: BOT_PERSONALITIES_def)
  have sk: "skill_level silver_config = 1 / 2"
    by (simp add: silver_config_def)
  have top: "py_index rs 0 = Inr (rs ! 0)"
    using ne by (simp add: py_index_def)
  have bound: "spec_weighted_position (length rs) r2 < length rs"
    using spec_weighted_position_bound[OF n1, of r2] by simp
  have chosen: "py_index rs (int (spec_weighted_position (length rs) r2))
      = Inr (rs ! spec_weighted_position (length rs) r2)"
    using bound by (simp add: py_index_def)
  have a: "choose_pick e st cards sc p ctx ds r1 r2
           = (Inr (fst (rs ! spec_pick_position (1 / 2) (length rs) r1 r2)), st')"
    by (simp add: choose_pick_def assms(1) ne silver unk sk ebind_def Let_def top
        py_choices_top3_norm[OF n1] chosen spec_pick_position_def)
  have b: "spec_pick_position (1 / 2) (length rs) r1 r2 < min 3 (length rs)"
    using spec_weighted_position_bound[OF n1, of r2] ne
    by (simp add: spec_pick_position_def)
  have c: "(case map_of personality_multipliers p of None \<Rightarrow> 1.0 | Some m \<Rightarrow> m) = (1::real)"
    using assms(3) by (simp add: personality_multipliers_def)
  from a b len sk c show ?thesis by blast
qed


lemma platinum_fallback:
  "fallback_evaluation plain_common_card ''platinum'' (1 / 2) = Inr 40"
  "fallback_evaluation example_card ''platinum'' (1 / 2) = Inr 75"
  using fallback_spec[OF plain_common_facts(4,5,6), of "''platinum''" "1 / 2"]
    fallback_spec[OF example_card_facts(4,5,6), of "''platinum''" "1 / 2"]
  by (simp_all add: spec_fallback_def plain_common_facts example_card_facts spec_rarity_base_def
        spec_personality_scalar_def spec_clip_def py_uniform_def)

lemma rankings_platinum:
  "get_pick_rankings no_models_env empty_service tied_cards ''DTK'' ''platinum'' None half_draws
     = (Inr [(1, 75), (0, 40), (2, 40)], empty_service)"
  by (simp add: get_pick_rankings_def py_sort_reverse_def tied_cards_def predict_no_models
      half_draws_def platinum_fallback)

theorem choose_pick_unknown_personality_witness:
  "get_pick_rankings no_models_env empty_service tied_cards ''DTK'' ''platinum'' None half_draws
     = (Inr [(1, 75), (0, 40), (2, 40)], empty_service)
   \<and> tied_cards \<noteq> []
   \<and> ''platinum'' \<notin> {''bronze'', ''silver'', ''gold'', ''mythic''}
   \<and> choose_pick no_models_env empty_service tied_cards ''DTK'' ''platinum'' None half_draws
        (7 / 10) (19 / 20) = (Inr 2, empty_service)
   \<and> choose_pick no_models_env empty_service tied_cards ''DTK'' ''platinum'' None half_draws
        (2 / 5) (19 / 20) = (Inr 1, empty_service)"
proof -
  have t: "tied_cards \<noteq> []" by (simp add: tied_cards_def)
  have u: "''platinum'' \<notin> {''bronze'', ''silver'', ''gold'', ''mythic''}" by simp
  have p1: "spec_pick_position (1 / 2) (length [(1 :: int, 75 :: real), (0, 40), (2, 40)])
              (7 / 10) (19 / 20) = 2"
    by (simp add: spec_pick_position_def spec_weighted_position_def)
  have p2: "spec_pick_position (1 / 2) (length [(1 :: int, 75 :: real), (0, 40), (2, 40)])
              (2 / 5) (19 / 20) = 0"
    by (simp add: spec_pick_position_def spec_weighted_position_def)
  from choose_pick_unknown_personality [OF rankings_platinum t u, of "7 / 10" "19 / 20"]
  have a: "choose_pick no_models_env empty_service tied_cards ''DTK'' ''platinum'' None
      half_draws (7 / 10) (19 / 20) = (Inr 2, empty_service)"
    unfolding p1 by simp
  from choose_pick_unknown_personality [OF rankings_platinum t u, of "2 / 5" "19 / 20"]
  have b: "choose_pick no_models_env empty_service tied_cards ''DTK'' ''platinum'' None
      half_draws (2 / 5) (19 / 20) = (Inr 1, empty_service)"
    unfolding p2 by simp
  from rankings_platinum t u a b show ?thesis by blast
qed

end
